theory Spec2Isabelle
  imports Main "HOL-Library.Word"
begin

section \<open>Values shared by the server and the client\<close>

type_synonym bytes = "8 word list"

text \<open>
  The errors the two source files can end with. \<open>WebCryptoLocalError\<close> carries a code
  and a message, as the class of that name does; \<open>TypeError\<close> and \<open>NativeError\<close>
  stand for what the helpers, the codec and the native back ends throw.
\<close>

datatype error_code =
    ACTION_NOT_IMPLEMENTED
  | PROVIDER_NOT_FOUND
  | HANDLE_NOT_FOUND
  | BAD_PARAMETERS

datatype error =
    WebCryptoLocalError error_code string
  | TypeError string
  | NativeError string

datatype algorithm = Algorithm string "(string \<times> string) list"

text \<open>
  An \<open>AlgorithmProto\<close> object of the wire codec. Its methods \<open>isEmpty\<close> and
  \<open>toAlgorithm\<close> belong to the codec, which is outside the two files; they are taken as
  parameters below.
\<close>

datatype algorithm_proto = AlgorithmProto string "(string \<times> string) list"

text \<open>
  The \<open>algorithm\<close> field of a live key holds either a plain algorithm object or an object
  that has a \<open>toAlgorithm\<close> method; the test \<open>(key.algorithm as any).toAlgorithm\<close> is
  true exactly for the second.
\<close>

datatype key_algorithm = Plain algorithm | Convertible algorithm_proto

record crypto_key =
  key_type :: string
  key_algorithm :: key_algorithm
  extractable :: bool
  usages :: "string list"

text \<open>\<open>Array.prototype.join\<close> on an array of strings.\<close>

fun join :: "string \<Rightarrow> string list \<Rightarrow> string" where
  "join sep [] = []"
| "join sep [x] = x"
| "join sep (x # y # ys) = x @ sep @ join sep (y # ys)"

section \<open>The key storage service\<close>

subsection \<open>Wire objects and decoded parameters\<close>

record action_proto =
  action :: string
  actionId :: string
  payload :: bytes

text \<open>\<open>new ResultProto(action)\<close>: a result for the action, with no data yet.\<close>

record result_proto =
  of_action :: action_proto
  data :: "bytes option"

definition ResultProto :: "action_proto \<Rightarrow> result_proto" where
  "ResultProto a = \<lparr>of_action = a, data = None\<rparr>"

record getItem_params =
  gi_providerID :: string
  gi_key :: string
  gi_algorithm :: algorithm_proto
  gi_extractable :: "bool option"
  gi_keyUsages :: "string list option"

text \<open>The parameters of \<open>setItem\<close> and \<open>indexOf\<close>: a provider and \<open>params.item.id\<close>.\<close>

record item_params =
  ip_providerID :: string
  ip_item_id :: string

record removeItem_params =
  ri_providerID :: string
  ri_key :: string

text \<open>The parameters of \<open>keys\<close> and \<open>clear\<close>: a provider only.\<close>

record provider_params =
  pp_providerID :: string

text \<open>
  The six \<open>ACTION\<close> constants of \<open>core/protos/keystorage\<close>. They are declared outside
  the file, so the service takes them as a parameter.
\<close>

record action_codes =
  GetItemACTION :: string
  SetItemACTION :: string
  RemoveItemACTION :: string
  KeysACTION :: string
  IndexOfACTION :: string
  ClearACTION :: string

text \<open>The second argument \<open>PvCrypto\<close>'s \<open>keyStorage.setItem\<close> is given.\<close>

record setItem_options =
  pinFriendlyName :: string
  pinDescription :: string

record session =
  origin :: string

subsection \<open>Providers, the registry and the log of calls\<close>

text \<open>
  A provider as the service sees it: whether it is an instance of \<open>PvCrypto\<close>, the
  contents of its key storage, and the six methods of that storage. The methods are the
  provider's own code; each takes the storage contents and can throw.
\<close>

record 'ks provider =
  isPvCrypto :: bool
  keyStorage :: 'ks
  ks_getItem :: "'ks \<Rightarrow> string \<Rightarrow> algorithm option \<Rightarrow> bool option \<Rightarrow> string list option
                 \<Rightarrow> error + crypto_key option"
  ks_setItem :: "'ks \<Rightarrow> crypto_key \<Rightarrow> setItem_options option \<Rightarrow> error + string \<times> 'ks"
  ks_removeItem :: "'ks \<Rightarrow> string \<Rightarrow> error + 'ks"
  ks_keys :: "'ks \<Rightarrow> error + string list"
  ks_indexOf :: "'ks \<Rightarrow> crypto_key \<Rightarrow> error + string option"
  ks_clear :: "'ks \<Rightarrow> error + 'ks"

text \<open>
  A \<open>ServiceCryptoItem\<close>: its id, a reference to the live key object it wraps, and the id
  of the provider that owns the key.
\<close>

record crypto_item =
  item_id :: string
  item_ref :: nat
  item_providerID :: string

text \<open>
  Every call that leaves the handler, in program order. The log is what the claims about
  order are stated on.
\<close>

datatype event =
    ImportProto string
  | GetCrypto string
  | MemoryItem string
  | MemoryAdd string
  | ExportProto string
  | KsGetItem string string "algorithm option" "bool option" "string list option"
  | KsSetItem string crypto_key "setItem_options option"
  | KsRemoveItem string string
  | KsKeys string
  | KsIndexOf string crypto_key
  | KsClear string

text \<open>
  The state the handler works on: the providers of the directory, the live key objects by
  reference (so that a write through one reference is seen through every other), the
  memory storage, the next free reference, and the log.
\<close>

record 'ks state =
  providers :: "string \<rightharpoonup> 'ks provider"
  heap :: "nat \<Rightarrow> crypto_key"
  next_ref :: nat
  memoryStorage :: "string \<rightharpoonup> crypto_item"
  trace :: "event list"

text \<open>
  What the service uses of the codec and of \<open>pvtsutils\<close>: the six \<open>importProto\<close>
  decoders, the two methods of \<open>AlgorithmProto\<close>, the id a new \<open>ServiceCryptoItem\<close>
  gets, \<open>toProto().exportProto()\<close> of an item, \<open>Convert.FromUtf8String\<close> and
  \<open>ArrayStringConverter.set\<close>.
\<close>

record server_env =
  importGetItem :: "action_proto \<Rightarrow> error + getItem_params"
  importSetItem :: "action_proto \<Rightarrow> error + item_params"
  importRemoveItem :: "action_proto \<Rightarrow> error + removeItem_params"
  importKeys :: "action_proto \<Rightarrow> error + provider_params"
  importIndexOf :: "action_proto \<Rightarrow> error + item_params"
  importClear :: "action_proto \<Rightarrow> error + provider_params"
  isEmpty :: "algorithm_proto \<Rightarrow> bool"
  toAlgorithm :: "algorithm_proto \<Rightarrow> algorithm"
  newItemId :: "crypto_key \<Rightarrow> string \<Rightarrow> string"
  exportItemProto :: "crypto_item \<Rightarrow> crypto_key \<Rightarrow> error + bytes"
  FromUtf8String :: "string \<Rightarrow> bytes"
  ArrayStringConverter_set :: "string list \<Rightarrow> error + bytes"

subsection \<open>Sequencing with errors and state\<close>

text \<open>
  A step takes the state and gives a value or an error, and the state it leaves. An error
  ends the handler; what was written before it stays written, as with a JavaScript
  exception.
\<close>

type_synonym ('a, 's) step = "'s \<Rightarrow> (error + 'a) \<times> 's"

definition ok :: "'a \<Rightarrow> ('a, 's) step" where
  "ok x = (\<lambda>s. (Inr x, s))"

definition raise :: "error \<Rightarrow> ('a, 's) step" where
  "raise e = (\<lambda>s. (Inl e, s))"

definition lift :: "error + 'a \<Rightarrow> ('a, 's) step" where
  "lift r = (\<lambda>s. (r, s))"

definition then_do :: "('a, 's) step \<Rightarrow> ('a \<Rightarrow> ('b, 's) step) \<Rightarrow> ('b, 's) step" where
  "then_do m f = (\<lambda>s. case m s of (Inl e, s') \<Rightarrow> (Inl e, s') | (Inr x, s') \<Rightarrow> f x s')"

definition emit :: "event \<Rightarrow> (unit, 'ks state) step" where
  "emit ev = (\<lambda>s. (Inr (), s\<lparr>trace := trace s @ [ev]\<rparr>))"

subsection \<open>The calls the handler makes\<close>

definition importProto :: "(action_proto \<Rightarrow> error + 'p) \<Rightarrow> action_proto \<Rightarrow> ('p, 'ks state) step" where
  "importProto dec a = then_do (emit (ImportProto (action a))) (\<lambda>_. lift (dec a))"

text \<open>
  Modelled from the spec: \<open>CryptoService.getCrypto\<close>, which \<open>getCrypto\<close> forwards to, is
  not in the two files. The spec's Provider Directory has
  \<open>resolve(provider_id) -> Provider | fails(ProviderNotFound)\<close>.
\<close>

definition getCrypto :: "string \<Rightarrow> ('ks provider, 'ks state) step" where
  "getCrypto pid = then_do (emit (GetCrypto pid)) (\<lambda>_ s.
     case providers s pid of
       None \<Rightarrow> (Inl (WebCryptoLocalError PROVIDER_NOT_FOUND pid), s)
     | Some crypto \<Rightarrow> (Inr crypto, s))"

text \<open>
  Modelled from the spec: the memory storage class is not in the two files. The spec's
  Handle Registry has \<open>get(handle_id) -> LiveKeyObject | fails(NotFound)\<close>; the entry
  found is the \<open>ServiceCryptoItem\<close>, whose \<open>item\<close> field is the live key.
\<close>

definition memoryStorage_item :: "string \<Rightarrow> (crypto_item, 'ks state) step" where
  "memoryStorage_item ident = then_do (emit (MemoryItem ident)) (\<lambda>_ s.
     case memoryStorage s ident of
       None \<Rightarrow> (Inl (WebCryptoLocalError HANDLE_NOT_FOUND ident), s)
     | Some it \<Rightarrow> (Inr it, s))"

text \<open>
  \<open>new ServiceCryptoItem(key, providerID)\<close>: the key the provider returned becomes a live
  object of its own, under a reference not used before.
\<close>

definition new_ServiceCryptoItem :: "server_env \<Rightarrow> crypto_key \<Rightarrow> string \<Rightarrow> (crypto_item, 'ks state) step" where
  "new_ServiceCryptoItem env key pid = (\<lambda>s.
     (Inr \<lparr>item_id = newItemId env key pid, item_ref = next_ref s, item_providerID = pid\<rparr>,
      s\<lparr>heap := (heap s)(next_ref s := key), next_ref := Suc (next_ref s)\<rparr>))"

text \<open>
  Modelled from the spec: the registry's \<open>add\<close> inserts the entry under its id.
\<close>

definition memoryStorage_add :: "crypto_item \<Rightarrow> (unit, 'ks state) step" where
  "memoryStorage_add it = then_do (emit (MemoryAdd (item_id it))) (\<lambda>_ s.
     (Inr (), s\<lparr>memoryStorage := (memoryStorage s)(item_id it \<mapsto> it)\<rparr>))"

definition exportProto :: "server_env \<Rightarrow> crypto_item \<Rightarrow> (bytes, 'ks state) step" where
  "exportProto env it = then_do (emit (ExportProto (item_id it))) (\<lambda>_ s.
     (exportItemProto env it (heap s (item_ref it)), s))"

text \<open>Reading and writing the live key object behind a reference.\<close>

definition read_key :: "nat \<Rightarrow> (crypto_key, 'ks state) step" where
  "read_key r = (\<lambda>s. (Inr (heap s r), s))"

definition write_algorithm :: "nat \<Rightarrow> key_algorithm \<Rightarrow> (unit, 'ks state) step" where
  "write_algorithm r alg = (\<lambda>s. (Inr (), s\<lparr>heap := (heap s)(r := (heap s r)\<lparr>key_algorithm := alg\<rparr>)\<rparr>))"

text \<open>
  A call of a storage method that changes the storage writes the new contents back to the
  provider in the directory.
\<close>

definition store_keyStorage :: "string \<Rightarrow> 'ks provider \<Rightarrow> 'ks \<Rightarrow> (unit, 'ks state) step" where
  "store_keyStorage pid crypto ks' = (\<lambda>s.
     (Inr (), s\<lparr>providers := (providers s)(pid \<mapsto> crypto\<lparr>keyStorage := ks'\<rparr>)\<rparr>))"

definition keyStorage_getItem ::
  "string \<Rightarrow> 'ks provider \<Rightarrow> string \<Rightarrow> algorithm option \<Rightarrow> bool option \<Rightarrow> string list option
   \<Rightarrow> (crypto_key option, 'ks state) step" where
  "keyStorage_getItem pid crypto k alg ext us =
     then_do (emit (KsGetItem pid k alg ext us)) (\<lambda>_.
       lift (ks_getItem crypto (keyStorage crypto) k alg ext us))"

definition keyStorage_setItem ::
  "string \<Rightarrow> 'ks provider \<Rightarrow> crypto_key \<Rightarrow> setItem_options option \<Rightarrow> (string, 'ks state) step" where
  "keyStorage_setItem pid crypto key opts =
     then_do (emit (KsSetItem pid key opts)) (\<lambda>_.
     then_do (lift (ks_setItem crypto (keyStorage crypto) key opts)) (\<lambda>(index, ks').
     then_do (store_keyStorage pid crypto ks') (\<lambda>_. ok index)))"

definition keyStorage_removeItem :: "string \<Rightarrow> 'ks provider \<Rightarrow> string \<Rightarrow> (unit, 'ks state) step" where
  "keyStorage_removeItem pid crypto k =
     then_do (emit (KsRemoveItem pid k)) (\<lambda>_.
     then_do (lift (ks_removeItem crypto (keyStorage crypto) k)) (\<lambda>ks'.
       store_keyStorage pid crypto ks'))"

definition keyStorage_keys :: "string \<Rightarrow> 'ks provider \<Rightarrow> (string list, 'ks state) step" where
  "keyStorage_keys pid crypto =
     then_do (emit (KsKeys pid)) (\<lambda>_. lift (ks_keys crypto (keyStorage crypto)))"

definition keyStorage_indexOf :: "string \<Rightarrow> 'ks provider \<Rightarrow> crypto_key \<Rightarrow> (string option, 'ks state) step" where
  "keyStorage_indexOf pid crypto key =
     then_do (emit (KsIndexOf pid key)) (\<lambda>_. lift (ks_indexOf crypto (keyStorage crypto) key))"

definition keyStorage_clear :: "string \<Rightarrow> 'ks provider \<Rightarrow> (unit, 'ks state) step" where
  "keyStorage_clear pid crypto =
     then_do (emit (KsClear pid)) (\<lambda>_.
     then_do (lift (ks_clear crypto (keyStorage crypto))) (\<lambda>ks'.
       store_keyStorage pid crypto ks'))"

subsection \<open>\<open>KeyStorageService.onMessage\<close>, case by case\<close>

text \<open>\<open>params.extractable || undefined\<close>.\<close>

definition or_undefined :: "bool option \<Rightarrow> bool option" where
  "or_undefined b = (if b = Some True then Some True else None)"

text \<open>\<open>case P.KeyStorageGetItemActionProto.ACTION\<close>.\<close>

definition onGetItem :: "server_env \<Rightarrow> action_proto \<Rightarrow> result_proto \<Rightarrow> (result_proto, 'ks state) step" where
  "onGetItem env a result =
     then_do (importProto (importGetItem env) a) (\<lambda>params.
     then_do (getCrypto (gi_providerID params)) (\<lambda>crypto.
     then_do (keyStorage_getItem (gi_providerID params) crypto
                (gi_key params)
                (if isEmpty env (gi_algorithm params) then None
                 else Some (toAlgorithm env (gi_algorithm params)))
                (or_undefined (gi_extractable params))
                (gi_keyUsages params)) (\<lambda>key.
     case key of
       None \<Rightarrow> ok result
     | Some k \<Rightarrow>
         then_do (new_ServiceCryptoItem env k (gi_providerID params)) (\<lambda>cryptoKey.
         then_do (memoryStorage_add cryptoKey) (\<lambda>_.
         then_do (exportProto env cryptoKey) (\<lambda>d.
           ok (result\<lparr>data := Some d\<rparr>)))))))"

text \<open>\<open>case P.KeyStorageSetItemActionProto.ACTION\<close>.\<close>

definition onSetItem ::
  "server_env \<Rightarrow> session \<Rightarrow> action_proto \<Rightarrow> result_proto \<Rightarrow> (result_proto, 'ks state) step" where
  "onSetItem env sess a result =
     then_do (importProto (importSetItem env) a) (\<lambda>params.
     then_do (memoryStorage_item (ip_item_id params)) (\<lambda>it.
     then_do (getCrypto (ip_providerID params)) (\<lambda>crypto.
     then_do (read_key (item_ref it)) (\<lambda>key0.
     then_do (case key_algorithm key0 of
                Convertible ap \<Rightarrow> write_algorithm (item_ref it) (Plain (toAlgorithm env ap))
              | Plain _ \<Rightarrow> ok ()) (\<lambda>_.
     then_do (read_key (item_ref it)) (\<lambda>key.
     then_do (if isPvCrypto crypto
              then keyStorage_setItem (ip_providerID params) crypto key
                     (Some \<lparr>pinFriendlyName = origin sess,
                            pinDescription = join '', '' (usages key)\<rparr>)
              else keyStorage_setItem (ip_providerID params) crypto key None) (\<lambda>index.
       ok (result\<lparr>data := Some (FromUtf8String env index)\<rparr>))))))))"

text \<open>\<open>case P.KeyStorageRemoveItemActionProto.ACTION\<close>.\<close>

definition onRemoveItem :: "server_env \<Rightarrow> action_proto \<Rightarrow> result_proto \<Rightarrow> (result_proto, 'ks state) step" where
  "onRemoveItem env a result =
     then_do (importProto (importRemoveItem env) a) (\<lambda>params.
     then_do (getCrypto (ri_providerID params)) (\<lambda>crypto.
     then_do (keyStorage_removeItem (ri_providerID params) crypto (ri_key params)) (\<lambda>_.
       ok result)))"

text \<open>\<open>case P.KeyStorageKeysActionProto.ACTION\<close>.\<close>

definition onKeys :: "server_env \<Rightarrow> action_proto \<Rightarrow> result_proto \<Rightarrow> (result_proto, 'ks state) step" where
  "onKeys env a result =
     then_do (importProto (importKeys env) a) (\<lambda>params.
     then_do (getCrypto (pp_providerID params)) (\<lambda>crypto.
     then_do (keyStorage_keys (pp_providerID params) crypto) (\<lambda>keys.
     then_do (lift (ArrayStringConverter_set env keys)) (\<lambda>d.
       ok (result\<lparr>data := Some d\<rparr>)))))"

text \<open>
  \<open>case P.KeyStorageIndexOfActionProto.ACTION\<close>. The test \<open>if (index)\<close> is false for
  \<open>null\<close> and for the empty string.
\<close>

definition onIndexOf :: "server_env \<Rightarrow> action_proto \<Rightarrow> result_proto \<Rightarrow> (result_proto, 'ks state) step" where
  "onIndexOf env a result =
     then_do (importProto (importIndexOf env) a) (\<lambda>params.
     then_do (getCrypto (ip_providerID params)) (\<lambda>crypto.
     then_do (memoryStorage_item (ip_item_id params)) (\<lambda>it.
     then_do (read_key (item_ref it)) (\<lambda>key.
     then_do (keyStorage_indexOf (ip_providerID params) crypto key) (\<lambda>index.
       case index of
         None \<Rightarrow> ok result
       | Some i \<Rightarrow> if i = [] then ok result
                   else ok (result\<lparr>data := Some (FromUtf8String env i)\<rparr>))))))"

text \<open>\<open>case P.KeyStorageClearActionProto.ACTION\<close>.\<close>

definition onClear :: "server_env \<Rightarrow> action_proto \<Rightarrow> result_proto \<Rightarrow> (result_proto, 'ks state) step" where
  "onClear env a result =
     then_do (importProto (importClear env) a) (\<lambda>params.
     then_do (getCrypto (pp_providerID params)) (\<lambda>crypto.
     then_do (keyStorage_clear (pp_providerID params) crypto) (\<lambda>_.
       ok result)))"

text \<open>The message of the \<open>default\<close> case: \<open>`Action '${action.action}' is not implemented`\<close>.\<close>

definition not_implemented_message :: "string \<Rightarrow> string" where
  "not_implemented_message code = ''Action '' @ [CHR 0x27] @ code @ [CHR 0x27] @ '' is not implemented''"

text \<open>The \<open>switch\<close>: the first case whose constant equals \<open>action.action\<close> runs.\<close>

definition onMessage ::
  "server_env \<Rightarrow> action_codes \<Rightarrow> session \<Rightarrow> action_proto \<Rightarrow> (result_proto, 'ks state) step" where
  "onMessage env P sess a =
     (let result = ResultProto a in
      if action a = GetItemACTION P then onGetItem env a result
      else if action a = SetItemACTION P then onSetItem env sess a result
      else if action a = RemoveItemACTION P then onRemoveItem env a result
      else if action a = KeysACTION P then onKeys env a result
      else if action a = IndexOfACTION P then onIndexOf env a result
      else if action a = ClearACTION P then onClear env a result
      else raise (WebCryptoLocalError ACTION_NOT_IMPLEMENTED (not_implemented_message (action a))))"

text \<open>The action codes the service owns.\<close>

definition owned :: "action_codes \<Rightarrow> string set" where
  "owned P = {GetItemACTION P, SetItemACTION P, RemoveItemACTION P, KeysACTION P,
              IndexOfACTION P, ClearACTION P}"

text \<open>The events a dispatch appended to the log.\<close>

definition new_events :: "'ks state \<Rightarrow> 'ks state \<Rightarrow> event list" where
  "new_events s s' = drop (length (trace s)) (trace s')"

section \<open>The client's \<open>SubtleCrypto\<close>\<close>

subsection \<open>JavaScript values\<close>

datatype js_value =
    JUndefined
  | JNull
  | JBool bool
  | JNum int
  | JStr string
  | JBuf bytes
  | JArr "js_value list"
  | JObj "(string \<times> js_value) list"

fun typeof :: "js_value \<Rightarrow> string" where
  "typeof JUndefined = ''undefined''"
| "typeof JNull = ''object''"
| "typeof (JBool _) = ''boolean''"
| "typeof (JNum _) = ''number''"
| "typeof (JStr _) = ''string''"
| "typeof (JBuf _) = ''object''"
| "typeof (JArr _) = ''object''"
| "typeof (JObj _) = ''object''"

text \<open>Reading and assigning a property of an object.\<close>

fun js_get :: "string \<Rightarrow> js_value \<Rightarrow> js_value" where
  "js_get k (JObj fs) = (case map_of fs k of Some v \<Rightarrow> v | None \<Rightarrow> JUndefined)"
| "js_get k _ = JUndefined"

fun js_set :: "string \<Rightarrow> js_value \<Rightarrow> js_value \<Rightarrow> js_value" where
  "js_set k v (JObj fs) = JObj ((k, v) # filter (\<lambda>f. fst f \<noteq> k) fs)"
| "js_set k v x = x"

subsection \<open>Actions, events and the environment\<close>

datatype client_action =
    DeriveBitsActionProto string js_value js_value js_value
  | DigestActionProto js_value bytes string
  | GenerateKeyActionProto string js_value js_value js_value

text \<open>The \<open>length\<close> field of a \<open>DeriveBitsActionProto\<close>.\<close>

fun action_length :: "client_action \<Rightarrow> js_value" where
  "action_length (DeriveBitsActionProto pid alg k len) = len"
| "action_length _ = JUndefined"

datatype client_event =
    Sent client_action
  | NativeDigest js_value bytes
  | ConsoleWarn js_value
  | ImportKeyPair bytes
  | ImportKey bytes

text \<open>What \<open>generateKey\<close> returns: a pair of keys or one key.\<close>

datatype generated = CryptoKeyPair js_value js_value | CryptoKey js_value

text \<open>
  What the three methods use from outside the file: the checks and \<open>prepareAlgorithm\<close> of
  \<open>utils\<close> (but for \<open>checkPrimitive\<close>, below), \<open>BufferSourceConverter.toArrayBuffer\<close>,
  \<open>exportProto\<close> of a key, the id of the service, \<open>client.send\<close>, the digest of
  \<open>self.crypto.subtle\<close> when \<open>self.crypto\<close> is there, and the two \<open>importProto\<close>
  decoders of the result of \<open>generateKey\<close>.
\<close>

record client_env =
  checkAlgorithm :: "js_value \<Rightarrow> string \<Rightarrow> error option"
  checkCryptoKey :: "js_value \<Rightarrow> string \<Rightarrow> error option"
  checkBufferSource :: "js_value \<Rightarrow> string \<Rightarrow> error option"
  checkArray :: "js_value \<Rightarrow> string \<Rightarrow> error option"
  prepareAlgorithm :: "js_value \<Rightarrow> error + js_value"
  toArrayBuffer :: "js_value \<Rightarrow> error + bytes"
  key_exportProto :: "js_value \<Rightarrow> error + bytes"
  service_id :: string
  send :: "client_action \<Rightarrow> error + bytes"
  self_crypto :: "(js_value \<Rightarrow> bytes \<Rightarrow> error + bytes) option"
  importKeyPairProto :: "bytes \<Rightarrow> error + js_value \<times> js_value"
  importKeyProto :: "bytes \<Rightarrow> error + js_value"

text \<open>A check that throws or returns nothing.\<close>

definition check :: "error option \<Rightarrow> (unit, 's) step" where
  "check c = (case c of None \<Rightarrow> ok () | Some e \<Rightarrow> raise e)"

definition client_log :: "client_event \<Rightarrow> (unit, client_event list) step" where
  "client_log ev = (\<lambda>s. (Inr (), s @ [ev]))"

definition client_send :: "client_env \<Rightarrow> client_action \<Rightarrow> (bytes, client_event list) step" where
  "client_send env act = then_do (client_log (Sent act)) (\<lambda>_. lift (send env act))"

text \<open>
  Modelled from the spec: \<open>utils.checkPrimitive\<close> is not in the file; only its calls are,
  with a value, the name of a primitive type and the name of the field. The spec's
  per-field validation has that numeric lengths must be non-negative, and its errors are
  \<open>BadParameters\<close>.
\<close>

definition checkPrimitive :: "js_value \<Rightarrow> string \<Rightarrow> string \<Rightarrow> error option" where
  "checkPrimitive v ty name =
     (if typeof v \<noteq> ty then Some (WebCryptoLocalError BAD_PARAMETERS name)
      else case v of
             JNum n \<Rightarrow> if n < 0 then Some (WebCryptoLocalError BAD_PARAMETERS name) else None
           | _ \<Rightarrow> None)"

subsection \<open>\<open>deriveBits\<close>, \<open>digest\<close> and \<open>generateKey\<close>\<close>

definition deriveBits ::
  "client_env \<Rightarrow> js_value \<Rightarrow> js_value \<Rightarrow> js_value \<Rightarrow> (bytes, client_event list) step" where
  "deriveBits env algorithm baseKey len =
     then_do (check (checkAlgorithm env algorithm ''algorithm'')) (\<lambda>_.
     then_do (check (checkCryptoKey env baseKey ''baseKey'')) (\<lambda>_.
     then_do (check (checkPrimitive len ''number'' ''length'')) (\<lambda>_.
     then_do (lift (prepareAlgorithm env algorithm)) (\<lambda>algProto.
     then_do (check (checkCryptoKey env algProto ''algorithm.public'')) (\<lambda>_.
     then_do (lift (key_exportProto env (js_get ''public'' algProto))) (\<lambda>pub.
       client_send env
         (DeriveBitsActionProto (service_id env) (js_set ''public'' (JBuf pub) algProto)
            baseKey len)))))))"



definition generateKey ::
  "client_env \<Rightarrow> js_value \<Rightarrow> js_value \<Rightarrow> js_value \<Rightarrow> (generated, client_event list) step" where
  "generateKey env algorithm ext keyUsages =
     then_do (check (checkAlgorithm env algorithm ''algorithm'')) (\<lambda>_.
     then_do (check (checkPrimitive ext ''boolean'' ''extractable'')) (\<lambda>_.
     then_do (check (checkArray env keyUsages ''keyUsages'')) (\<lambda>_.
     then_do (lift (prepareAlgorithm env algorithm)) (\<lambda>algProto.
     then_do (client_send env
                (GenerateKeyActionProto (service_id env) algProto ext keyUsages)) (\<lambda>result.
     then_do (client_log (ImportKeyPair result)) (\<lambda>_.
       case importKeyPairProto env result of
         Inr (publicKey, privateKey) \<Rightarrow> ok (CryptoKeyPair publicKey privateKey)
       | Inl e \<Rightarrow>
           then_do (client_log (ImportKey result)) (\<lambda>_.
           then_do (lift (importKeyProto env result)) (\<lambda>key.
             ok (CryptoKey key)))))))))"

section \<open>Derived notions and example values\<close>

text \<open>The live key after lines 113 to 115 of \<open>onMessage\<close>.\<close>

definition converted :: "server_env \<Rightarrow> crypto_key \<Rightarrow> crypto_key" where
  "converted env k =
     (case key_algorithm k of
        Convertible ap \<Rightarrow> k\<lparr>key_algorithm := Plain (toAlgorithm env ap)\<rparr>
      | Plain _ \<Rightarrow> k)"

text \<open>The second argument of \<open>keyStorage.setItem\<close> in lines 117 to 124.\<close>

definition setItem_arguments :: "session \<Rightarrow> 'ks provider \<Rightarrow> crypto_key \<Rightarrow> setItem_options option" where
  "setItem_arguments sess crypto key =
     (if isPvCrypto crypto
      then Some \<lparr>pinFriendlyName = origin sess, pinDescription = join '', '' (usages key)\<rparr>
      else None)"

text \<open>The item line 100 creates for a key found in state \<open>st\<close>.\<close>

definition registered :: "server_env \<Rightarrow> 'ks state \<Rightarrow> string \<Rightarrow> crypto_key \<Rightarrow> crypto_item" where
  "registered env st pid k =
     \<lparr>item_id = newItemId env k pid, item_ref = next_ref st, item_providerID = pid\<rparr>"

text \<open>
  Concrete values to run the definitions on: action codes, a key whose algorithm has a
  converter, a provider that keeps its keys in a list, decoders that give fixed
  parameters, and a state with one provider \<open>p1\<close> and one registered key \<open>k1\<close>.
\<close>

definition example_codes :: action_codes where
  "example_codes = \<lparr>GetItemACTION = ''crypto/keyStorage/getItem'',
     SetItemACTION = ''crypto/keyStorage/setItem'',
     RemoveItemACTION = ''crypto/keyStorage/removeItem'',
     KeysACTION = ''crypto/keyStorage/keys'',
     IndexOfACTION = ''crypto/keyStorage/indexOf'',
     ClearACTION = ''crypto/keyStorage/clear''\<rparr>"

definition example_key :: crypto_key where
  "example_key = \<lparr>key_type = ''secret'',
     key_algorithm = Convertible (AlgorithmProto ''HMAC'' [(''hash'', ''SHA-256'')]),
     extractable = False, usages = [''sign'', ''verify'']\<rparr>"

definition example_item :: crypto_item where
  "example_item = \<lparr>item_id = ''k1'', item_ref = 0, item_providerID = ''p1''\<rparr>"

definition example_provider ::
  "bool \<Rightarrow> (string \<times> crypto_key) list \<Rightarrow> (string \<times> crypto_key) list provider" where
  "example_provider pv ks = \<lparr>isPvCrypto = pv, keyStorage = ks,
     ks_getItem = (\<lambda>ks k alg ext us. Inr (map_of ks k)),
     ks_setItem = (\<lambda>ks key opts. Inr (''id-'' @ key_type key, (''id-'' @ key_type key, key) # ks)),
     ks_removeItem = (\<lambda>ks k. Inr (filter (\<lambda>e. fst e \<noteq> k) ks)),
     ks_keys = (\<lambda>ks. Inr (map fst ks)),
     ks_indexOf = (\<lambda>ks key. Inr (map_of (map (\<lambda>e. (snd e, fst e)) ks) key)),
     ks_clear = (\<lambda>ks. Inr [])\<rparr>"

definition example_env :: "getItem_params \<Rightarrow> item_params \<Rightarrow> server_env" where
  "example_env gp ip = \<lparr>
     importGetItem = (\<lambda>a. Inr gp),
     importSetItem = (\<lambda>a. Inr ip),
     importRemoveItem = (\<lambda>a. Inr \<lparr>ri_providerID = gi_providerID gp, ri_key = gi_key gp\<rparr>),
     importKeys = (\<lambda>a. Inr \<lparr>pp_providerID = gi_providerID gp\<rparr>),
     importIndexOf = (\<lambda>a. Inr ip),
     importClear = (\<lambda>a. Inr \<lparr>pp_providerID = gi_providerID gp\<rparr>),
     isEmpty = (\<lambda>ap. case ap of AlgorithmProto n fs \<Rightarrow> n = []),
     toAlgorithm = (\<lambda>ap. case ap of AlgorithmProto n fs \<Rightarrow> Algorithm n fs),
     newItemId = (\<lambda>key pid. pid @ ''/'' @ key_type key),
     exportItemProto = (\<lambda>it key. Inr (map of_char (item_id it))),
     FromUtf8String = map of_char,
     ArrayStringConverter_set = (\<lambda>xs. Inr (concat (map (map of_char) xs)))\<rparr>"

definition example_getItem_params :: getItem_params where
  "example_getItem_params = \<lparr>gi_providerID = ''p1'', gi_key = ''id-secret'',
     gi_algorithm = AlgorithmProto [] [], gi_extractable = Some False, gi_keyUsages = None\<rparr>"

definition example_item_params :: item_params where
  "example_item_params = \<lparr>ip_providerID = ''p1'', ip_item_id = ''k1''\<rparr>"

definition example_state ::
  "bool \<Rightarrow> (string \<times> crypto_key) list \<Rightarrow> (string \<times> crypto_key) list state" where
  "example_state pv ks = \<lparr>providers = [''p1'' \<mapsto> example_provider pv ks],
     heap = (\<lambda>r. example_key), next_ref = 1,
     memoryStorage = [''k1'' \<mapsto> example_item], trace = []\<rparr>"

definition example_session :: session where
  "example_session = \<lparr>origin = ''https://example.org''\<rparr>"

definition example_action :: "string \<Rightarrow> action_proto" where
  "example_action code = \<lparr>action = code, actionId = ''1'', payload = []\<rparr>"

text \<open>
  A client whose helpers accept strings and objects as algorithms, whose provider
  answers a digest request with the data reversed (a stand-in for a hash), and whose \<open>generateKey\<close> answers \<open>[1]\<close> for a
  single key and \<open>[2]\<close> for a pair; the local digest is the parameter.
\<close>

definition example_client_env :: "(js_value \<Rightarrow> bytes \<Rightarrow> error + bytes) option \<Rightarrow> client_env" where
  "example_client_env native = \<lparr>
     checkAlgorithm = (\<lambda>v n. case v of JStr s \<Rightarrow> None | JObj fs \<Rightarrow> None | _ \<Rightarrow> Some (TypeError n)),
     checkCryptoKey = (\<lambda>v n. case v of JObj fs \<Rightarrow> None | _ \<Rightarrow> Some (TypeError n)),
     checkBufferSource = (\<lambda>v n. case v of JBuf b \<Rightarrow> None | _ \<Rightarrow> Some (TypeError n)),
     checkArray = (\<lambda>v n. case v of JArr xs \<Rightarrow> None | _ \<Rightarrow> Some (TypeError n)),
     prepareAlgorithm = (\<lambda>v. case v of JStr s \<Rightarrow> Inr (JObj [(''name'', JStr s)])
                                | JObj fs \<Rightarrow> Inr (JObj fs)
                                | _ \<Rightarrow> Inl (TypeError ''algorithm'')),
     toArrayBuffer = (\<lambda>v. case v of JBuf b \<Rightarrow> Inr b | _ \<Rightarrow> Inl (TypeError ''data'')),
     key_exportProto = (\<lambda>v. case v of JObj fs \<Rightarrow> Inr [7] | _ \<Rightarrow> Inl (TypeError ''exportProto'')),
     service_id = ''p1'',
     send = (\<lambda>act. case act of
               DigestActionProto alg raw pid \<Rightarrow> Inr (rev raw)
             | DeriveBitsActionProto pid alg k len \<Rightarrow> Inr [0]
             | GenerateKeyActionProto pid alg ext us \<Rightarrow>
                 Inr (if js_get ''name'' alg = JStr ''HMAC'' then [1] else [2])),
     self_crypto = native,
     importKeyPairProto = (\<lambda>b. if b = [2]
        then Inr (JObj [(''type'', JStr ''public'')], JObj [(''type'', JStr ''private'')])
        else Inl (TypeError ''CryptoKeyPairProto'')),
     importKeyProto = (\<lambda>b. if b = [1] then Inr (JObj [(''type'', JStr ''secret'')])
        else Inl (TypeError ''CryptoKeyProto''))\<rparr>"

text \<open>An algorithm object for ECDH whose \<open>public\<close> field is a key.\<close>

definition example_ecdh :: js_value where
  "example_ecdh = JObj [(''name'', JStr ''ECDH''), (''public'', JObj [(''type'', JStr ''public'')])]"

section \<open>Running the handler\<close>

lemmas step_defs = ok_def raise_def lift_def then_do_def emit_def importProto_def getCrypto_def
  memoryStorage_item_def new_ServiceCryptoItem_def memoryStorage_add_def exportProto_def
  read_key_def write_algorithm_def store_keyStorage_def keyStorage_getItem_def
  keyStorage_setItem_def keyStorage_removeItem_def keyStorage_keys_def keyStorage_indexOf_def
  keyStorage_clear_def

lemmas example_defs = example_codes_def example_key_def example_item_def example_provider_def
  example_env_def example_getItem_params_def example_item_params_def example_state_def
  example_session_def example_action_def

lemmas client_defs = ok_def raise_def lift_def then_do_def check_def client_log_def client_send_def

lemma onMessage_GetItem:
  "action a = GetItemACTION P \<Longrightarrow> onMessage env P sess a = onGetItem env a (ResultProto a)"
  by (simp add: onMessage_def)

lemma onMessage_SetItem:
  "action a = SetItemACTION P \<Longrightarrow> action a \<noteq> GetItemACTION P \<Longrightarrow>
   onMessage env P sess a = onSetItem env sess a (ResultProto a)"
  by (simp add: onMessage_def)

text \<open>
  The whole run of the \<open>setItem\<close> case once the parameters decode, the handle is in the
  memory storage and the provider resolves: the live key is converted in place, the
  provider's \<open>setItem\<close> is called with it, and its outcome is the outcome of the action.
\<close>

lemma onSetItem_run:
  assumes dec: "importSetItem env a = Inr params"
    and reg: "memoryStorage st (ip_item_id params) = Some it"
    and prov: "providers st (ip_providerID params) = Some crypto"
    and key: "key = converted env (heap st (item_ref it))"
    and opts: "opts = setItem_arguments sess crypto key"
    and st1: "st1 = st\<lparr>heap := (heap st)(item_ref it := key),
                 trace := trace st @ [ImportProto (action a), MemoryItem (ip_item_id params),
                    GetCrypto (ip_providerID params), KsSetItem (ip_providerID params) key opts]\<rparr>"
  shows "onSetItem env sess a result st =
     (case ks_setItem crypto (keyStorage crypto) key opts of
        Inl e \<Rightarrow> (Inl e, st1)
      | Inr (index, ks') \<Rightarrow>
          (Inr (result\<lparr>data := Some (FromUtf8String env index)\<rparr>),
           st1\<lparr>providers := (providers st)(ip_providerID params \<mapsto> crypto\<lparr>keyStorage := ks'\<rparr>)\<rparr>))"
  using assms
  by (auto simp: onSetItem_def step_defs converted_def setItem_arguments_def
           split: sum.splits key_algorithm.splits prod.splits)

text \<open>The whole run of the \<open>getItem\<close> case once the parameters decode.\<close>

lemma onGetItem_no_provider:
  assumes dec: "importGetItem env a = Inr params"
    and prov: "providers st (gi_providerID params) = None"
  shows "onGetItem env a result st =
     (Inl (WebCryptoLocalError PROVIDER_NOT_FOUND (gi_providerID params)),
      st\<lparr>trace := trace st @ [ImportProto (action a), GetCrypto (gi_providerID params)]\<rparr>)"
  using assms by (simp add: onGetItem_def step_defs)

lemma onGetItem_run:
  assumes dec: "importGetItem env a = Inr params"
    and prov: "providers st (gi_providerID params) = Some crypto"
    and alg: "alg = (if isEmpty env (gi_algorithm params) then None
                     else Some (toAlgorithm env (gi_algorithm params)))"
    and ext: "ext = or_undefined (gi_extractable params)"
    and st1: "st1 = st\<lparr>trace := trace st @ [ImportProto (action a), GetCrypto (gi_providerID params),
                  KsGetItem (gi_providerID params) (gi_key params) alg ext (gi_keyUsages params)]\<rparr>"
  shows "onGetItem env a result st =
     (case ks_getItem crypto (keyStorage crypto) (gi_key params) alg ext (gi_keyUsages params) of
        Inl e \<Rightarrow> (Inl e, st1)
      | Inr None \<Rightarrow> (Inr result, st1)
      | Inr (Some k) \<Rightarrow>
          (map_sum id (\<lambda>d. result\<lparr>data := Some d\<rparr>)
             (exportItemProto env (registered env st (gi_providerID params) k) k),
           st1\<lparr>heap := (heap st)(next_ref st := k), next_ref := Suc (next_ref st),
               memoryStorage := (memoryStorage st)
                 (item_id (registered env st (gi_providerID params) k) \<mapsto>
                    registered env st (gi_providerID params) k),
               trace := trace st1 @
                 [MemoryAdd (item_id (registered env st (gi_providerID params) k)),
                  ExportProto (item_id (registered env st (gi_providerID params) k))]\<rparr>))"
  using assms
  by (auto simp: onGetItem_def step_defs registered_def split: sum.splits option.splits)

section \<open>The claims about the key storage service\<close>

text \<open>
  C1. The claim: the provider id of every action is resolved before anything else the
  handler does, in particular before a key handle is looked up in the memory storage, for
  \<open>setItem\<close> as for \<open>indexOf\<close>. The \<open>setItem\<close> case looks the handle up first (line 110)
  and resolves the provider after (line 111). With a provider id and a handle id that are
  both unknown, \<open>setItem\<close> ends with the memory storage's error and the log has no
  \<open>GetCrypto\<close>: the directory was never asked. On the same input \<open>indexOf\<close>, which has
  the two lines in the other order, ends with the provider-not-found error.
\<close>

theorem setItem_looks_up_handle_before_provider:
  "onMessage (example_env example_getItem_params \<lparr>ip_providerID = ''p9'', ip_item_id = ''k9''\<rparr>)
     example_codes example_session (example_action ''crypto/keyStorage/setItem'')
     (example_state False []) =
   (Inl (WebCryptoLocalError HANDLE_NOT_FOUND ''k9''),
    (example_state False [])\<lparr>trace := [ImportProto ''crypto/keyStorage/setItem'', MemoryItem ''k9'']\<rparr>)
   \<and>
   onMessage (example_env example_getItem_params \<lparr>ip_providerID = ''p9'', ip_item_id = ''k9''\<rparr>)
     example_codes example_session (example_action ''crypto/keyStorage/indexOf'')
     (example_state False []) =
   (Inl (WebCryptoLocalError PROVIDER_NOT_FOUND ''p9''),
    (example_state False [])\<lparr>trace := [ImportProto ''crypto/keyStorage/indexOf'', GetCrypto ''p9'']\<rparr>)"
  by (simp add: onMessage_def onSetItem_def onIndexOf_def step_defs example_defs ResultProto_def Let_def)

text \<open>
  C2. The claim: the handling of \<open>setItem\<close> is the same function of the request for every
  provider variant. It is not: the same action, session and registry, with a provider that
  differs only in being a \<open>PvCrypto\<close> or not, lead to two different calls of the
  provider's \<open>setItem\<close> (the fourth event of the dispatch).
\<close>

theorem setItem_branches_on_PvCrypto:
  "new_events (example_state True [])
     (snd (onMessage (example_env example_getItem_params example_item_params) example_codes
        example_session (example_action ''crypto/keyStorage/setItem'') (example_state True []))) ! 3
   = KsSetItem ''p1'' (converted (example_env example_getItem_params example_item_params) example_key)
       (Some \<lparr>pinFriendlyName = ''https://example.org'', pinDescription = ''sign, verify''\<rparr>)
   \<and>
   new_events (example_state False [])
     (snd (onMessage (example_env example_getItem_params example_item_params) example_codes
        example_session (example_action ''crypto/keyStorage/setItem'') (example_state False []))) ! 3
   = KsSetItem ''p1'' (converted (example_env example_getItem_params example_item_params) example_key)
       None
   \<and>
   new_events (example_state True [])
     (snd (onMessage (example_env example_getItem_params example_item_params) example_codes
        example_session (example_action ''crypto/keyStorage/setItem'') (example_state True []))) ! 3
   \<noteq>
   new_events (example_state False [])
     (snd (onMessage (example_env example_getItem_params example_item_params) example_codes
        example_session (example_action ''crypto/keyStorage/setItem'') (example_state False []))) ! 3"
  by (simp add: onMessage_def onSetItem_def step_defs example_defs ResultProto_def new_events_def
        converted_def Let_def)

text \<open>
  C2, as amended. When the parameters of a \<open>setItem\<close> action decode, the handle is
  registered and the provider resolves, the dispatch makes exactly four calls: the decoder,
  the memory storage, the directory, and the provider's \<open>setItem\<close> with the live key.
  The second argument of that last call depends on the provider in one way only: for a
  \<open>PvCrypto\<close> it is the session's origin as \<open>pinFriendlyName\<close> and the key's usages
  joined by a comma and a space as \<open>pinDescription\<close>; for any other provider there is
  none.
\<close>

theorem setItem_options_by_variant:
  assumes act: "action a = SetItemACTION P" "action a \<noteq> GetItemACTION P"
    and dec: "importSetItem env a = Inr params"
    and reg: "memoryStorage st (ip_item_id params) = Some it"
    and prov: "providers st (ip_providerID params) = Some crypto"
    and key: "key = converted env (heap st (item_ref it))"
  shows "new_events st (snd (onMessage env P sess a st)) =
           [ImportProto (action a), MemoryItem (ip_item_id params),
            GetCrypto (ip_providerID params),
            KsSetItem (ip_providerID params) key
              (if isPvCrypto crypto
               then Some \<lparr>pinFriendlyName = origin sess,
                           pinDescription = join '', '' (usages key)\<rparr>
               else None)]"
  using onSetItem_run [OF dec reg prov key refl refl, of sess "ResultProto a"] act
  by (auto simp: onMessage_SetItem new_events_def setItem_arguments_def split: sum.splits prod.splits)

theorem setItem_options_by_variant_witness:
  "new_events (example_state True [])
     (snd (onMessage (example_env example_getItem_params example_item_params) example_codes
        example_session (example_action ''crypto/keyStorage/setItem'') (example_state True []))) =
     [ImportProto ''crypto/keyStorage/setItem'', MemoryItem ''k1'', GetCrypto ''p1'',
      KsSetItem ''p1''
        (example_key\<lparr>key_algorithm := Plain (Algorithm ''HMAC'' [(''hash'', ''SHA-256'')])\<rparr>)
        (Some \<lparr>pinFriendlyName = ''https://example.org'', pinDescription = ''sign, verify''\<rparr>)]"
  using setItem_options_by_variant [of "example_action ''crypto/keyStorage/setItem''" example_codes
      "example_env example_getItem_params example_item_params" example_item_params
      "example_state True []" example_item "example_provider True []"
      "example_key\<lparr>key_algorithm := Plain (Algorithm ''HMAC'' [(''hash'', ''SHA-256'')])\<rparr>"
      example_session]
  by (simp add: example_defs converted_def)

text \<open>
  C3. An action whose code is none of the six the service owns ends with an
  \<open>ACTION_NOT_IMPLEMENTED\<close> error whose message quotes the code, and leaves the whole
  state, the memory storage with it, as it was.
\<close>

theorem unknown_action_not_implemented:
  "action a \<notin> owned P \<Longrightarrow>
   onMessage env P sess a st =
     (Inl (WebCryptoLocalError ACTION_NOT_IMPLEMENTED
            (''Action '' @ [CHR 0x27] @ action a @ [CHR 0x27] @ '' is not implemented'')), st)"
  by (simp add: onMessage_def owned_def raise_def not_implemented_message_def)

theorem unknown_action_not_implemented_witness:
  "onMessage (example_env example_getItem_params example_item_params) example_codes example_session
     (example_action ''crypto/subtle/sign'') (example_state False []) =
     (Inl (WebCryptoLocalError ACTION_NOT_IMPLEMENTED ''Action 'crypto/subtle/sign' is not implemented''),
      example_state False [])"
  using unknown_action_not_implemented [of "example_action ''crypto/subtle/sign''" example_codes
      "example_env example_getItem_params example_item_params" example_session "example_state False []"]
  by (simp add: owned_def example_codes_def example_action_def)

text \<open>
  C4. A \<open>getItem\<close> action whose parameters decode and whose provider resolves, and whose
  storage lookup returns without throwing: if the lookup finds a key \<open>k\<close>, the item wrapping
  it is in the memory storage afterwards under its id, its live object is \<open>k\<close>, the
  memory storage was written before the projection was exported (the last two events, in
  that order), and the result carries the exported projection of that item; if the lookup
  finds nothing, the memory storage is as before and the result carries no data.
\<close>

theorem getItem_registers_before_result:
  assumes act: "action a = GetItemACTION P"
    and dec: "importGetItem env a = Inr params"
    and prov: "providers st (gi_providerID params) = Some crypto"
    and look: "ks_getItem crypto (keyStorage crypto) (gi_key params)
                 (if isEmpty env (gi_algorithm params) then None
                  else Some (toAlgorithm env (gi_algorithm params)))
                 (or_undefined (gi_extractable params)) (gi_keyUsages params) = Inr found"
    and run: "r = fst (onMessage env P sess a st)" "st' = snd (onMessage env P sess a st)"
    and it: "it = registered env st (gi_providerID params) k"
  shows "(found = Some k \<longrightarrow>
            memoryStorage st' = (memoryStorage st)(item_id it \<mapsto> it) \<and>
            heap st' (item_ref it) = k \<and>
            drop 3 (new_events st st') = [MemoryAdd (item_id it), ExportProto (item_id it)] \<and>
            r = map_sum id (\<lambda>d. (ResultProto a)\<lparr>data := Some d\<rparr>) (exportItemProto env it k)) \<and>
         (found = None \<longrightarrow>
            memoryStorage st' = memoryStorage st \<and>
            r = Inr (ResultProto a) \<and> data (ResultProto a) = None)"
  using onGetItem_run [OF dec prov refl refl refl, of "ResultProto a"] act look run it
  by (auto simp: onMessage_GetItem new_events_def ResultProto_def registered_def)

theorem getItem_registers_before_result_witness:
  "memoryStorage (snd (onMessage (example_env example_getItem_params example_item_params)
       example_codes example_session (example_action ''crypto/keyStorage/getItem'')
       (example_state False [(''id-secret'', example_key)]))) ''p1/secret''
     = Some \<lparr>item_id = ''p1/secret'', item_ref = 1, item_providerID = ''p1''\<rparr>
   \<and> fst (onMessage (example_env example_getItem_params example_item_params)
       example_codes example_session (example_action ''crypto/keyStorage/getItem'')
       (example_state False [(''id-secret'', example_key)]))
     = Inr \<lparr>of_action = example_action ''crypto/keyStorage/getItem'',
            data = Some (map of_char ''p1/secret'')\<rparr>
   \<and> memoryStorage (snd (onMessage (example_env example_getItem_params example_item_params)
       example_codes example_session (example_action ''crypto/keyStorage/getItem'')
       (example_state False [])))
     = memoryStorage (example_state False [])
   \<and> fst (onMessage (example_env example_getItem_params example_item_params)
       example_codes example_session (example_action ''crypto/keyStorage/getItem'')
       (example_state False []))
     = Inr \<lparr>of_action = example_action ''crypto/keyStorage/getItem'', data = None\<rparr>"
  using getItem_registers_before_result [of "example_action ''crypto/keyStorage/getItem''"
      example_codes "example_env example_getItem_params example_item_params" example_getItem_params
      "example_state False [(''id-secret'', example_key)]"
      "example_provider False [(''id-secret'', example_key)]" "Some example_key"
      _ example_session _ _ example_key, OF _ _ _ _ refl refl refl]
    getItem_registers_before_result [of "example_action ''crypto/keyStorage/getItem''"
      example_codes "example_env example_getItem_params example_item_params" example_getItem_params
      "example_state False []" "example_provider False []" None
      _ example_session _ _ example_key, OF _ _ _ _ refl refl refl]
  by (simp add: example_defs registered_def ResultProto_def or_undefined_def)

text \<open>
  C9. In a \<open>getItem\<close> action whose parameters decode and whose provider resolves, the third
  event of the dispatch is the call of the provider's \<open>getItem\<close>. When the client gave
  \<open>extractable = false\<close>, the call's \<open>extractable\<close> argument is \<open>undefined\<close>; when the
  algorithm descriptor is empty, its \<open>algorithm\<close> argument is \<open>undefined\<close>. And the
  whole dispatch, result and state, is the same for parameters with \<open>extractable = false\<close>
  as for the same parameters with \<open>extractable\<close> left out.
\<close>

theorem getItem_false_extractable_not_forwarded:
  assumes act: "action a = GetItemACTION P"
    and dec: "importGetItem env a = Inr params"
    and prov: "providers st (gi_providerID params) = Some crypto"
    and run: "st' = snd (onMessage env P sess a st)"
  shows "(gi_extractable params = Some False \<longrightarrow>
            (\<exists>alg. new_events st st' ! 2 =
               KsGetItem (gi_providerID params) (gi_key params) alg None (gi_keyUsages params)))
       \<and> (isEmpty env (gi_algorithm params) \<longrightarrow>
            (\<exists>ext. new_events st st' ! 2 =
               KsGetItem (gi_providerID params) (gi_key params) None ext (gi_keyUsages params)))
       \<and> onMessage (env\<lparr>importGetItem := \<lambda>_. Inr (params\<lparr>gi_extractable := Some False\<rparr>)\<rparr>) P sess a st
         = onMessage (env\<lparr>importGetItem := \<lambda>_. Inr (params\<lparr>gi_extractable := None\<rparr>)\<rparr>) P sess a st"
proof -
  have "new_events st st' ! 2 =
          KsGetItem (gi_providerID params) (gi_key params)
            (if isEmpty env (gi_algorithm params) then None
             else Some (toAlgorithm env (gi_algorithm params)))
            (or_undefined (gi_extractable params)) (gi_keyUsages params)"
    using onGetItem_run [OF dec prov refl refl refl, of "ResultProto a"] act run
    by (auto simp: onMessage_GetItem new_events_def nth_append split: sum.splits option.splits)
  moreover have "onGetItem (env\<lparr>importGetItem := \<lambda>_. Inr (params\<lparr>gi_extractable := Some False\<rparr>)\<rparr>)
                    a (ResultProto a) st
         = onGetItem (env\<lparr>importGetItem := \<lambda>_. Inr (params\<lparr>gi_extractable := None\<rparr>)\<rparr>)
                    a (ResultProto a) st"
  proof (cases "providers st (gi_providerID params)")
    case None
    then show ?thesis
      by (simp add: onGetItem_no_provider)
  next
    case (Some c)
    then show ?thesis
      by (simp add: onGetItem_run [where crypto = c] or_undefined_def registered_def
               split: sum.splits option.splits)
  qed
  then have "onMessage (env\<lparr>importGetItem := \<lambda>_. Inr (params\<lparr>gi_extractable := Some False\<rparr>)\<rparr>) P sess a st
         = onMessage (env\<lparr>importGetItem := \<lambda>_. Inr (params\<lparr>gi_extractable := None\<rparr>)\<rparr>) P sess a st"
    using act by (simp add: onMessage_GetItem)
  ultimately show ?thesis by (simp add: or_undefined_def)
qed

theorem getItem_false_extractable_not_forwarded_witness:
  "new_events (example_state False [])
     (snd (onMessage (example_env example_getItem_params example_item_params)
       example_codes example_session (example_action ''crypto/keyStorage/getItem'')
       (example_state False []))) ! 2
   = KsGetItem ''p1'' ''id-secret'' None None None"
  using getItem_false_extractable_not_forwarded [of "example_action ''crypto/keyStorage/getItem''"
      example_codes "example_env example_getItem_params example_item_params" example_getItem_params
      "example_state False []" "example_provider False []" _ example_session, OF _ _ _ refl]
  by (auto simp add: example_defs)

text \<open>
  C10. In a \<open>setItem\<close> action whose parameters decode, whose handle is registered and whose
  provider resolves, if the algorithm of the registered live key has a converter, then
  after the dispatch the live object behind the handle has the converted algorithm and
  every other live object is as before; the memory storage still maps the same ids to the
  same items; the key's type, extractability and usages are unchanged; and the key the
  provider's \<open>setItem\<close> was called with is the live object as it is after the write. This
  holds whether that call returns or throws.
\<close>

theorem setItem_converts_algorithm_in_place:
  assumes act: "action a = SetItemACTION P" "action a \<noteq> GetItemACTION P"
    and dec: "importSetItem env a = Inr params"
    and reg: "memoryStorage st (ip_item_id params) = Some it"
    and prov: "providers st (ip_providerID params) = Some crypto"
    and alg: "key_algorithm (heap st (item_ref it)) = Convertible ap"
    and run: "st' = snd (onMessage env P sess a st)"
  shows "heap st' = (heap st)(item_ref it :=
                       (heap st (item_ref it))\<lparr>key_algorithm := Plain (toAlgorithm env ap)\<rparr>)
         \<and> memoryStorage st' = memoryStorage st
         \<and> key_type (heap st' (item_ref it)) = key_type (heap st (item_ref it))
         \<and> extractable (heap st' (item_ref it)) = extractable (heap st (item_ref it))
         \<and> usages (heap st' (item_ref it)) = usages (heap st (item_ref it))
         \<and> (\<exists>opts. new_events st st' ! 3 = KsSetItem (ip_providerID params) (heap st' (item_ref it)) opts)"
  using onSetItem_run [OF dec reg prov refl refl refl, of sess "ResultProto a"] act alg run
  by (auto simp: onMessage_SetItem new_events_def converted_def split: sum.splits prod.splits)

theorem setItem_converts_algorithm_in_place_witness:
  "heap (snd (onMessage (example_env example_getItem_params example_item_params) example_codes
        example_session (example_action ''crypto/keyStorage/setItem'') (example_state False []))) 0
   = example_key\<lparr>key_algorithm := Plain (Algorithm ''HMAC'' [(''hash'', ''SHA-256'')])\<rparr>"
  using setItem_converts_algorithm_in_place [of "example_action ''crypto/keyStorage/setItem''" example_codes
      "example_env example_getItem_params example_item_params" example_item_params
      "example_state False []" example_item "example_provider False []"
      "AlgorithmProto ''HMAC'' [(''hash'', ''SHA-256'')]" _ example_session, OF _ _ _ _ _ _ refl]
  by (simp add: example_defs)

section \<open>The claims about the client\<close>



text \<open>
  C6. Once the checks of \<open>generateKey\<close> pass and the provider has answered, the answer is
  first decoded as a key pair. If that succeeds, the pair is returned and the answer is
  not decoded again. Exactly if it fails, the answer is decoded as a single key, and the
  outcome of that decoding is the outcome of \<open>generateKey\<close>: the error of the failed pair
  decoding is dropped.
\<close>

theorem generateKey_pair_then_single:
  assumes "checkAlgorithm env alg ''algorithm'' = None"
    and "checkPrimitive ext ''boolean'' ''extractable'' = None"
    and "checkArray env us ''keyUsages'' = None"
    and "prepareAlgorithm env alg = Inr algProto"
    and "req = GenerateKeyActionProto (service_id env) algProto ext us"
    and "send env req = Inr result"
  shows "(\<forall>pub priv. importKeyPairProto env result = Inr (pub, priv) \<longrightarrow>
            generateKey env alg ext us tr =
              (Inr (CryptoKeyPair pub priv), tr @ [Sent req, ImportKeyPair result]))
       \<and> (\<forall>e. importKeyPairProto env result = Inl e \<longrightarrow>
            generateKey env alg ext us tr =
              (map_sum id CryptoKey (importKeyProto env result),
               tr @ [Sent req, ImportKeyPair result, ImportKey result]))"
  using assms by (auto simp: generateKey_def client_defs split: sum.splits)

theorem generateKey_pair_then_single_witness:
  "generateKey (example_client_env None) (JStr ''ECDSA'') (JBool True) (JArr [JStr ''sign'']) []
     = (Inr (CryptoKeyPair (JObj [(''type'', JStr ''public'')]) (JObj [(''type'', JStr ''private'')])),
        [Sent (GenerateKeyActionProto ''p1'' (JObj [(''name'', JStr ''ECDSA'')]) (JBool True)
                 (JArr [JStr ''sign''])),
         ImportKeyPair [2]])
   \<and> generateKey (example_client_env None) (JStr ''HMAC'') (JBool True) (JArr [JStr ''sign'']) []
     = (Inr (CryptoKey (JObj [(''type'', JStr ''secret'')])),
        [Sent (GenerateKeyActionProto ''p1'' (JObj [(''name'', JStr ''HMAC'')]) (JBool True)
                 (JArr [JStr ''sign''])),
         ImportKeyPair [1], ImportKey [1]])"
  using generateKey_pair_then_single [of "example_client_env None" "JStr ''ECDSA''" "JBool True"
          "JArr [JStr ''sign'']" "JObj [(''name'', JStr ''ECDSA'')]" _ "[2]" "[]", OF _ _ _ _ refl]
        generateKey_pair_then_single [of "example_client_env None" "JStr ''HMAC''" "JBool True"
          "JArr [JStr ''sign'']" "JObj [(''name'', JStr ''HMAC'')]" _ "[1]" "[]", OF _ _ _ _ refl]
  by (simp add: example_client_env_def checkPrimitive_def)

text \<open>
  C7. With a negative length \<open>deriveBits\<close> ends with an error and nothing is sent; when the
  two checks before it pass, the error is the bad-parameters error of the field
  \<open>length\<close>. With a length that is not negative the check of the length passes, and when
  the other checks and conversions pass as well, the action is sent with that length.
\<close>

theorem deriveBits_rejects_negative_length:
  "(n < 0 \<longrightarrow>
      (\<exists>e. deriveBits env alg key (JNum n) tr = (Inl e, tr)) \<and>
      (checkAlgorithm env alg ''algorithm'' = None \<and> checkCryptoKey env key ''baseKey'' = None \<longrightarrow>
         deriveBits env alg key (JNum n) tr = (Inl (WebCryptoLocalError BAD_PARAMETERS ''length''), tr)))
   \<and> (0 \<le> n \<longrightarrow>
      checkPrimitive (JNum n) ''number'' ''length'' = None \<and>
      (checkAlgorithm env alg ''algorithm'' = None \<and> checkCryptoKey env key ''baseKey'' = None \<and>
       prepareAlgorithm env alg = Inr algProto \<and>
       checkCryptoKey env algProto ''algorithm.public'' = None \<and>
       key_exportProto env (js_get ''public'' algProto) = Inr pub \<longrightarrow>
         deriveBits env alg key (JNum n) tr =
           (send env (DeriveBitsActionProto (service_id env)
                        (js_set ''public'' (JBuf pub) algProto) key (JNum n)),
            tr @ [Sent (DeriveBitsActionProto (service_id env)
                        (js_set ''public'' (JBuf pub) algProto) key (JNum n))])))"
  by (auto simp: deriveBits_def client_defs checkPrimitive_def split: option.splits sum.splits)

theorem deriveBits_rejects_negative_length_witness:
  "deriveBits (example_client_env None) example_ecdh (JObj [(''type'', JStr ''private'')]) (JNum (- 1)) []
     = (Inl (WebCryptoLocalError BAD_PARAMETERS ''length''), [])
   \<and> deriveBits (example_client_env None) example_ecdh (JObj [(''type'', JStr ''private'')]) (JNum 256) []
     = (Inr [0],
        [Sent (DeriveBitsActionProto ''p1''
                 (JObj [(''public'', JBuf [7]), (''name'', JStr ''ECDH'')])
                 (JObj [(''type'', JStr ''private'')]) (JNum 256))])"
  using deriveBits_rejects_negative_length [where n = "- 1" and env = "example_client_env None"
          and alg = example_ecdh and key = "JObj [(''type'', JStr ''private'')]" and tr = "[]"]
        deriveBits_rejects_negative_length [where n = 256 and env = "example_client_env None"
          and alg = example_ecdh and key = "JObj [(''type'', JStr ''private'')]" and tr = "[]"
          and algProto = example_ecdh and pub = "[7]"]
  by (simp add: example_client_env_def example_ecdh_def)

end
